theory Spec2Isabelle
  imports Main "HOL-Library.Sublist"
begin

section \<open>Python values shared by the three scripts\<close>

text \<open>
  Python \<open>str\<close> values are modelled as \<open>string\<close>, read as UTF-8 byte sequences: the
  two questions of the dataset that contain U+2019 carry its three bytes. Python's
  unbounded \<open>int\<close> is \<open>int\<close>. A file-system path is a string; the module-level
  constants that depend on where the scripts are installed (\<open>OUTPUT\<close>, \<open>DATASET_PATH\<close>,
  \<open>RESULTS_DIR\<close>) and on the environment (\<open>API_BASE\<close>) are parameters of the model.
\<close>

type_synonym path = string

definition rsquo :: string where
  "rsquo = [CHR 0xE2, CHR 0x80, CHR 0x99]"

text \<open>\<open>str(n)\<close> and the \<open>{n}\<close> of an f-string, for an integer: its decimal digits.\<close>

function str_nat :: "nat \<Rightarrow> string" where
  "str_nat n =
     (if n < 10 then [''0123456789'' ! n]
      else str_nat (n div 10) @ [''0123456789'' ! (n mod 10)])"
  by pat_completeness auto
termination
  by (relation "measure (\<lambda>n. n)") auto

declare str_nat.simps [simp del]

definition str_int :: "int \<Rightarrow> string" where
  "str_int i = (if i < 0 then ''-'' @ str_nat (nat (- i)) else str_nat (nat i))"

text \<open>
  The slice \<open>xs[:n]\<close>: the first \<open>n\<close> elements for \<open>n \<ge> 0\<close>, all but the last
  \<open>-n\<close> for a negative \<open>n\<close>; never an error.
\<close>

definition py_slice_to :: "int \<Rightarrow> 'a list \<Rightarrow> 'a list" where
  "py_slice_to n xs =
     (if 0 \<le> n then take (nat n) xs else take (nat (int (length xs) + n)) xs)"

text \<open>
  The slice \<open>s[:n]\<close> of a \<open>str\<close> counts code points, not bytes: on the UTF-8 bytes it
  keeps the first \<open>n\<close> lead bytes, each with the continuation bytes (\<open>10xxxxxx\<close>) that
  follow it. Only \<open>n \<ge> 0\<close> occurs.
\<close>

definition utf8_continuation :: "char \<Rightarrow> bool" where
  "utf8_continuation c = ((of_char c :: nat) div 64 = 2)"

fun py_str_prefix :: "nat \<Rightarrow> string \<Rightarrow> string" where
  "py_str_prefix n [] = []"
| "py_str_prefix n (c # cs) =
     (if utf8_continuation c then c # py_str_prefix n cs
      else (case n of 0 \<Rightarrow> [] | Suc m \<Rightarrow> c # py_str_prefix m cs))"


section \<open>The QA item and the Dataset Builder (scripts/evaluation/generate-dataset.py)\<close>

text \<open>
  The dictionary built by \<open>build_entry\<close>, with its seven keys. The key \<open>id\<close> is the
  field \<open>item_id\<close>. \<open>ticker\<close> is \<open>None\<close> for JSON \<open>null\<close>.
\<close>

record qa_item =
  item_id :: string
  question :: string
  ground_truth :: string
  expected_tool :: "string list"
  category :: string
  ticker :: "string option"
  difficulty :: string

text \<open>The module constant \<open>TICKERS\<close>; no function reads it.\<close>

definition TICKERS :: "string list" where
  "TICKERS =
     [''AAPL'', ''AMD'', ''AMZN'', ''AVGO'', ''CRM'', ''GOOGL'', ''META'', ''MSFT'', ''NVDA'',
      ''ORCL'']"

text \<open>
  The optional parameters \<open>ticker\<close>, \<open>expected_tool\<close>, \<open>difficulty\<close> and
  \<open>ground_truth\<close> are \<open>None\<close> where the call leaves them out; the defaults are those of
  the \<open>def\<close> line, and \<open>expected_tool or []\<close> replaces a missing list by the empty one.
\<close>

definition build_entry ::
  "string \<Rightarrow> string \<Rightarrow> string \<Rightarrow> string option \<Rightarrow> string list option \<Rightarrow>
   string option \<Rightarrow> string option \<Rightarrow> qa_item" where
  "build_entry id' question' category' ticker' expected_tool' difficulty' ground_truth' =
     \<lparr> item_id = id',
       question = question',
       ground_truth = (case ground_truth' of None \<Rightarrow> '''' | Some g \<Rightarrow> g),
       expected_tool = (case expected_tool' of None \<Rightarrow> [] | Some ts \<Rightarrow> ts),
       category = category',
       ticker = ticker',
       difficulty = (case difficulty' of None \<Rightarrow> ''medium'' | Some d \<Rightarrow> d) \<rparr>"

text \<open>The list \<open>data\<close> of \<open>main\<close> after its eleven \<open>append\<close> calls, in call order.\<close>

definition data :: "qa_item list" where
  "data =
     [ build_entry ''single_metric_1'' ''What was NVDA's revenue in Q3 FY2024?''
         ''single_metric'' (Some ''NVDA'') (Some [''get_financial_metrics'']) None None,
       build_entry ''single_metric_2'' ''What was Apple's EPS in Q1 FY2024?''
         ''single_metric'' (Some ''AAPL'') (Some [''get_financial_metrics'']) None None,
       build_entry ''growth_1'' ''What was AMD's YoY revenue growth in Q2 FY2024?''
         ''growth_rate'' (Some ''AMD'') (Some [''compute_growth_rate'']) None None,
       build_entry ''growth_2''
         (''What was Microsoft'' @ rsquo @ ''s QoQ net income change from Q3 to Q4 FY2024?'')
         ''growth_rate'' (Some ''MSFT'') (Some [''compute_growth_rate'']) None None,
       build_entry ''trend_1''
         (''Show Apple'' @ rsquo @ ''s operating margin trend over the last 4 quarters.'')
         ''trend'' (Some ''AAPL'') (Some [''get_multi_quarter_metrics'']) None None,
       build_entry ''trend_2'' ''Plot Meta's free cash flow over the last 3 quarters.''
         ''trend'' (Some ''META'') (Some [''get_multi_quarter_metrics'']) None None,
       build_entry ''comparison_1''
         ''Compare AWS and Azure revenue growth over the last two quarters.''
         ''comparison'' None (Some [''get_multi_quarter_metrics'', ''compute_growth_rate''])
         (Some ''hard'') None,
       build_entry ''qual_1'' ''What did Jensen Huang say about AI demand?''
         ''qualitative'' (Some ''NVDA'') (Some [''search_earnings_transcript'']) None None,
       build_entry ''qual_2'' ''What did Tim Cook say about services growth?''
         ''qualitative'' (Some ''AAPL'') (Some [''search_earnings_transcript'']) None None,
       build_entry ''hybrid_1''
         ''What was NVDA's data center revenue and what drove the growth?''
         ''hybrid'' (Some ''NVDA'')
         (Some [''get_financial_metrics'', ''search_earnings_transcript'']) (Some ''hard'') None,
       build_entry ''edge_1'' ''What was Tesla's revenue in Q1 2024?''
         ''edge_cases'' (Some ''TSLA'') (Some [''list_available_data'']) None None ]"

text \<open>The closed enumeration of categories, as the module docstring lists it.\<close>

definition categories_enum :: "string set" where
  "categories_enum =
     {''single_metric'', ''growth_rate'', ''trend'', ''comparison'', ''qualitative'',
      ''hybrid'', ''edge_cases''}"

text \<open>
  What the builder touches: the dataset artifact at \<open>OUTPUT\<close> (\<open>None\<close> while the file
  does not exist; a JSON document is held as the item list it encodes) and the lines
  printed. \<open>main\<close> reads nothing: it opens the artifact with mode \<open>w\<close>, dumps \<open>data\<close>
  and prints one line.
\<close>

record builder_world =
  artifact :: "qa_item list option"
  printed :: "string list"

definition generate_main :: "path \<Rightarrow> builder_world \<Rightarrow> builder_world" where
  "generate_main OUTPUT w =
     w \<lparr> artifact := Some data,
         printed := printed w @
           [''Wrote '' @ str_nat (length data) @ '' items to '' @ OUTPUT] \<rparr>"


section \<open>The runners' environment\<close>

text \<open>
  The dataset artifact as a runner finds it at \<open>DATASET_PATH\<close>: missing, present but
  rejected by \<open>json.load\<close>, or holding an array of QA items, each an object with the
  seven keys of \<open>build_entry\<close> (so \<open>item["id"]\<close> and \<open>item["question"]\<close> find their
  keys, and \<open>item.get("category")\<close> is the item's category). A document that parses
  but is not such an array is outside the model.
\<close>

datatype dataset_artifact = Missing | Malformed | Dataset "qa_item list"

text \<open>
  The JSON body of one POST and the URL it goes to. \<open>strategy\<close> is \<open>None\<close> where the
  body has no such key.
\<close>

record request =
  url :: string
  message :: string
  chatHistory :: "string list"
  strategy :: "string option"

text \<open>
  What one \<open>session.post\<close> with \<open>resp.text()\<close> yields: a response with its status
  code and its whole body, or an exception of the HTTP client (connection refused,
  timeout, DNS failure). The service under test is a parameter: its answer to a request
  may depend on the requests it has received before.
\<close>

datatype http_outcome = Response int string | TransportFailure string

type_synonym service = "request list \<Rightarrow> request \<Rightarrow> http_outcome"

datatype error =
  FileNotFoundError string | JSONDecodeError | TypeError string | ClientError string

text \<open>
  The state a run reads and changes: the dataset artifact, the lines of the run's output
  file (one record each), the requests issued so far, oldest first, and the lines printed.
\<close>

record 'r world =
  dataset_file :: dataset_artifact
  out_file :: "'r list"
  requests :: "request list"
  stdout :: "string list"

record globals =
  DATASET_PATH :: path
  RESULTS_DIR :: path
  API_BASE :: string

text \<open>
  Both \<open>main\<close>s run their loop inside
  \<open>async with aiohttp.ClientSession() as session, out_file.open("w", ...) as outf\<close>.
  The statement enters the session, opens the output file with mode \<open>w\<close>, which leaves
  the file empty, and then asks the file object for \<open>__aenter__\<close>. A file object is a
  plain context manager, not an asynchronous one: the statement raises \<open>TypeError\<close>
  (Python 3.11 and later; \<open>AttributeError\<close> before), the session is closed and the body
  is never entered. \<open>w\<close> is the state once the file is open.
\<close>

definition async_with_message :: string where
  "async_with_message =
     [CHR 0x27] @ ''_io.TextIOWrapper'' @ [CHR 0x27] @
     '' object does not support the asynchronous context manager protocol''"

definition async_with_file ::
  "'r world \<Rightarrow> ('r world \<Rightarrow> error option \<times> 'r world) \<Rightarrow> error option \<times> 'r world" where
  "async_with_file w body = (Some (TypeError async_with_message), w)"

text \<open>The two flags both parsers declare, and the slicing both \<open>main\<close>s apply.\<close>

record args =
  smoke :: bool
  limit :: "int option"

definition slice_dataset :: "'x args_scheme \<Rightarrow> 'a list \<Rightarrow> 'a list" where
  "slice_dataset a dataset =
     (if smoke a then py_slice_to 5 dataset
      else (case limit a of
              Some n \<Rightarrow> if n \<noteq> 0 then py_slice_to n dataset else dataset
            | None \<Rightarrow> dataset))"


section \<open>The strategy-comparison runner (compare-strategies.py)\<close>

record compare_args = args +
  strategies :: "string list option"

text \<open>The dictionary \<open>run_case\<close> returns; it has no \<open>error\<close> key.\<close>

record compare_record =
  cr_id :: string
  cr_question :: string
  cr_strategy :: string
  cr_status :: int
  cr_raw_response :: string

definition compare_request :: "globals \<Rightarrow> qa_item \<times> string \<Rightarrow> request" where
  "compare_request g p =
     \<lparr> url = API_BASE g @ ''/api/chat/stream'',
       message = question (fst p), chatHistory = [], strategy = Some (snd p) \<rparr>"

definition compare_result :: "qa_item \<times> string \<Rightarrow> int \<Rightarrow> string \<Rightarrow> compare_record" where
  "compare_result p st text =
     \<lparr> cr_id = item_id (fst p), cr_question = question (fst p), cr_strategy = snd p,
       cr_status = st, cr_raw_response = text \<rparr>"

definition run_case ::
  "globals \<Rightarrow> service \<Rightarrow> qa_item \<Rightarrow> string \<Rightarrow> 'r world \<Rightarrow> (error + compare_record) \<times> 'r world" where
  "run_case g srv item strat w =
     (let req = compare_request g (item, strat);
          w' = w \<lparr> requests := requests w @ [req] \<rparr>
      in case srv (requests w) req of
           TransportFailure m \<Rightarrow> (Inl (ClientError m), w')
         | Response st text \<Rightarrow> (Inr (compare_result (item, strat) st text), w'))"

definition compare_progress :: "qa_item \<Rightarrow> string \<Rightarrow> compare_record \<Rightarrow> string" where
  "compare_progress item strat result =
     item_id item @ '' ['' @ strat @ ''] -> '' @ str_int (cr_status result)"

text \<open>
  The body of the \<open>async with\<close> statement: the inner loop \<open>for strat in strategies\<close>,
  which an exception of \<open>run_case\<close> leaves, and the outer loop
  \<open>for item in dataset\<close>.
\<close>

fun compare_strategies_loop ::
  "globals \<Rightarrow> service \<Rightarrow> qa_item \<Rightarrow> string list \<Rightarrow> compare_record world \<Rightarrow>
   error option \<times> compare_record world" where
  "compare_strategies_loop g srv item [] w = (None, w)"
| "compare_strategies_loop g srv item (strat # rest) w =
     (case run_case g srv item strat w of
        (Inl e, w') \<Rightarrow> (Some e, w')
      | (Inr result, w') \<Rightarrow>
          compare_strategies_loop g srv item rest
            (w' \<lparr> out_file := out_file w' @ [result],
                 stdout := stdout w' @ [compare_progress item strat result] \<rparr>))"

fun compare_items_loop ::
  "globals \<Rightarrow> service \<Rightarrow> qa_item list \<Rightarrow> string list \<Rightarrow> compare_record world \<Rightarrow>
   error option \<times> compare_record world" where
  "compare_items_loop g srv [] strats w = (None, w)"
| "compare_items_loop g srv (item # rest) strats w =
     (case compare_strategies_loop g srv item strats w of
        (Some e, w') \<Rightarrow> (Some e, w')
      | (None, w') \<Rightarrow> compare_items_loop g srv rest strats w')"

definition default_strategies :: "string list" where
  "default_strategies = [''baseline'', ''dense-only'', ''hybrid-0.6'']"

text \<open>\<open>args.strategies or [...]\<close>: the default list when the flag is absent.\<close>

definition compare_strategies :: "compare_args \<Rightarrow> string list" where
  "compare_strategies a =
     (case strategies a of
        None \<Rightarrow> default_strategies
      | Some ss \<Rightarrow> if ss = [] then default_strategies else ss)"

definition compare_select :: "compare_args \<Rightarrow> qa_item list \<Rightarrow> qa_item list" where
  "compare_select a dataset = slice_dataset a dataset"

text \<open>
  \<open>main\<close>: the result is the exception that ended the run, if any, and the state the
  run leaves. Once the dataset has been loaded and sliced, the output file is opened with
  mode \<open>w\<close> by the \<open>async with\<close> statement, whose body is the loop; the last
  \<open>print\<close> follows the statement.
\<close>

definition compare_main ::
  "globals \<Rightarrow> service \<Rightarrow> compare_args \<Rightarrow> compare_record world \<Rightarrow>
   error option \<times> compare_record world" where
  "compare_main g srv a w =
     (case dataset_file w of
        Missing \<Rightarrow> (Some (FileNotFoundError (''Dataset not found: '' @ DATASET_PATH g)), w)
      | Malformed \<Rightarrow> (Some JSONDecodeError, w)
      | Dataset dataset \<Rightarrow>
          (case async_with_file (w \<lparr> out_file := [] \<rparr>)
                  (compare_items_loop g srv (compare_select a dataset) (compare_strategies a)) of
             (Some e, w') \<Rightarrow> (Some e, w')
           | (None, w') \<Rightarrow>
               (None, w' \<lparr> stdout := stdout w' @
                  [''Saved comparison results to '' @ RESULTS_DIR g @
                   ''/strategy-compare.jsonl''] \<rparr>)))"


section \<open>The RAGAS runner (run-ragas.py)\<close>

record ragas_args = args +
  categories :: "string list option"

text \<open>The dictionary \<open>fetch_answer\<close> returns: one of the keys \<open>error\<close> and \<open>raw\<close>.\<close>

datatype answer = Error string | Raw string

definition ragas_request :: "globals \<Rightarrow> qa_item \<Rightarrow> request" where
  "ragas_request g item =
     \<lparr> url = API_BASE g @ ''/api/chat/stream'',
       message = question item, chatHistory = [], strategy = None \<rparr>"

definition ragas_answer :: "int \<Rightarrow> string \<Rightarrow> answer" where
  "ragas_answer st text =
     (if st \<noteq> 200 then Error (''HTTP '' @ str_int st @ '': '' @ text) else Raw text)"

definition fetch_answer ::
  "globals \<Rightarrow> service \<Rightarrow> qa_item \<Rightarrow> 'r world \<Rightarrow> (error + answer) \<times> 'r world" where
  "fetch_answer g srv item w =
     (let req = ragas_request g item;
          w' = w \<lparr> requests := requests w @ [req] \<rparr>
      in case srv (requests w) req of
           TransportFailure m \<Rightarrow> (Inl (ClientError m), w')
         | Response st text \<Rightarrow> (Inr (ragas_answer st text), w'))"

text \<open>The dictionary \<open>record\<close> of \<open>main\<close>; \<open>None\<close> is JSON \<open>null\<close>.\<close>

record ragas_record =
  rr_id :: string
  rr_question :: string
  rr_category :: string
  rr_expected_tool :: "string list"
  rr_raw_response :: "string option"
  rr_error :: "string option"

definition ragas_result :: "qa_item \<Rightarrow> answer \<Rightarrow> ragas_record" where
  "ragas_result item result =
     \<lparr> rr_id = item_id item, rr_question = question item, rr_category = category item,
       rr_expected_tool = expected_tool item,
       rr_raw_response = (case result of Raw c \<Rightarrow> Some c | Error _ \<Rightarrow> None),
       rr_error = (case result of Error e \<Rightarrow> Some e | Raw _ \<Rightarrow> None) \<rparr>"

definition ragas_progress :: "qa_item \<Rightarrow> string" where
  "ragas_progress item =
     ''Evaluated '' @ item_id item @ '' ('' @ py_str_prefix 40 (question item) @ ''...)''"

text \<open>The body of the \<open>async with\<close> statement: the loop \<open>for item in dataset\<close>.\<close>

fun ragas_items_loop ::
  "globals \<Rightarrow> service \<Rightarrow> qa_item list \<Rightarrow> ragas_record world \<Rightarrow>
   error option \<times> ragas_record world" where
  "ragas_items_loop g srv [] w = (None, w)"
| "ragas_items_loop g srv (item # rest) w =
     (case fetch_answer g srv item w of
        (Inl e, w') \<Rightarrow> (Some e, w')
      | (Inr result, w') \<Rightarrow>
          ragas_items_loop g srv rest
            (w' \<lparr> out_file := out_file w' @ [ragas_result item result],
                 stdout := stdout w' @ [ragas_progress item] \<rparr>))"

text \<open>
  The category filter, applied when \<open>args.categories\<close> is a non-empty list, and then the
  slicing.
\<close>

definition filter_categories :: "ragas_args \<Rightarrow> qa_item list \<Rightarrow> qa_item list" where
  "filter_categories a dataset =
     (case categories a of
        None \<Rightarrow> dataset
      | Some cs \<Rightarrow> if cs = [] then dataset else filter (\<lambda>d. category d \<in> set cs) dataset)"

definition ragas_select :: "ragas_args \<Rightarrow> qa_item list \<Rightarrow> qa_item list" where
  "ragas_select a dataset = slice_dataset a (filter_categories a dataset)"

definition ragas_main ::
  "globals \<Rightarrow> service \<Rightarrow> ragas_args \<Rightarrow> ragas_record world \<Rightarrow>
   error option \<times> ragas_record world" where
  "ragas_main g srv a w =
     (case dataset_file w of
        Missing \<Rightarrow> (Some (FileNotFoundError (''Dataset not found: '' @ DATASET_PATH g)), w)
      | Malformed \<Rightarrow> (Some JSONDecodeError, w)
      | Dataset dataset \<Rightarrow>
          (case async_with_file (w \<lparr> out_file := [] \<rparr>)
                  (ragas_items_loop g srv (ragas_select a dataset)) of
             (Some e, w') \<Rightarrow> (Some e, w')
           | (None, w') \<Rightarrow>
               (None, w' \<lparr> stdout := stdout w' @
                  [''Saved results to '' @ RESULTS_DIR g @ ''/ragas-run.jsonl''] \<rparr>)))"


section \<open>Concrete runs\<close>

definition example_globals :: globals where
  "example_globals =
     \<lparr> DATASET_PATH = ''/repo/data/evaluation/golden-qa.json'',
       RESULTS_DIR = ''/repo/data/evaluation/results'',
       API_BASE = ''http://localhost:3000'' \<rparr>"

text \<open>The two-item dataset \<open>single_metric_1\<close>, \<open>growth_1\<close>.\<close>

definition two_items :: "qa_item list" where
  "two_items = [data ! 0, data ! 2]"

text \<open>Six items of category \<open>qualitative\<close> after one of category \<open>trend\<close>.\<close>

definition qual_item :: "string \<Rightarrow> qa_item" where
  "qual_item i =
     build_entry i ''What did the CEO say about demand?'' ''qualitative'' None
       (Some [''search_earnings_transcript'']) None None"

definition six_qualitative :: "qa_item list" where
  "six_qualitative =
     [data ! 4, qual_item ''q1'', qual_item ''q2'', qual_item ''q3'', qual_item ''q4'',
      qual_item ''q5'', qual_item ''q6'']"

definition start :: "qa_item list \<Rightarrow> 'r world" where
  "start ds = \<lparr> dataset_file = Dataset ds, out_file = [], requests = [], stdout = [] \<rparr>"

text \<open>A state with no dataset artifact, and \<open>old\<close> left in the output file by an earlier run.\<close>

definition no_dataset :: "'r list \<Rightarrow> 'r world" where
  "no_dataset old = \<lparr> dataset_file = Missing, out_file = old, requests = [], stdout = [] \<rparr>"

text \<open>
  Two services: one that answers every request with status 200 and one that answers every
  request with status 500.
\<close>

definition ok_service :: service where
  "ok_service h r = Response 200 ''data: ok''"

definition failing_service :: service where
  "failing_service h r = Response 500 ''Internal Server Error''"


section \<open>The Dataset Builder's dataset\<close>

lemma data_ids:
  "map item_id data =
     [''single_metric_1'', ''single_metric_2'', ''growth_1'', ''growth_2'', ''trend_1'',
      ''trend_2'', ''comparison_1'', ''qual_1'', ''qual_2'', ''hybrid_1'', ''edge_1'']"
  by (simp add: data_def build_entry_def)

lemma data_categories:
  "map category data =
     [''single_metric'', ''single_metric'', ''growth_rate'', ''growth_rate'', ''trend'',
      ''trend'', ''comparison'', ''qualitative'', ''qualitative'', ''hybrid'', ''edge_cases'']"
  by (simp add: data_def build_entry_def)

lemma data_ids_distinct: "distinct (map item_id data)"
  unfolding data_ids by simp

lemma data_categories_closed: "set (map category data) \<subseteq> categories_enum"
  unfolding data_categories by (simp add: categories_enum_def)

text \<open>
  Claim C5. Every dataset the Dataset Builder produces has pairwise distinct item ids, and
  the category of each of its items is one of the seven categories of the closed
  enumeration.
\<close>

theorem builder_ids_unique_categories_closed:
  assumes "artifact (generate_main OUTPUT w) = Some ds"
  shows "distinct (map item_id ds) \<and> (\<forall>d \<in> set ds. category d \<in> categories_enum)"
proof -
  from assms have ds: "ds = data" by (simp add: generate_main_def)
  have "\<forall>d \<in> set data. category d \<in> categories_enum"
    using data_categories_closed by auto
  with data_ids_distinct ds show ?thesis by simp
qed

theorem builder_ids_unique_categories_closed_witness:
  "artifact (generate_main ''data/evaluation/golden-qa.json''
      \<lparr> artifact = None, printed = [] \<rparr>) = Some data
   \<and> distinct (map item_id data)
   \<and> data ! 7 \<in> set data
   \<and> category (data ! 7) = ''qualitative''
   \<and> category (data ! 7) \<in> categories_enum"
proof -
  have run: "artifact (generate_main ''data/evaluation/golden-qa.json''
      \<lparr> artifact = None, printed = [] \<rparr>) = Some data"
    by (simp add: generate_main_def)
  have mem: "data ! 7 \<in> set data" by (simp add: data_def)
  have cat: "category (data ! 7) = ''qualitative''" by (simp add: data_def build_entry_def)
  from builder_ids_unique_categories_closed [OF run] mem cat run show ?thesis by blast
qed

text \<open>
  Claim C9. The Dataset Builder is deterministic: whatever the artifact held before and
  wherever the script is installed, two invocations leave the same ordered sequence of QA
  items in the artifact, so regenerating over an artifact the builder wrote changes
  nothing of its content; the sequence is \<open>data\<close>, with eleven items.
\<close>

theorem builder_deterministic:
  "artifact (generate_main OUTPUT w) = artifact (generate_main OUTPUT' w')
   \<and> artifact (generate_main OUTPUT (generate_main OUTPUT w)) = artifact (generate_main OUTPUT w)
   \<and> artifact (generate_main OUTPUT w) = Some data
   \<and> length data = 11"
  by (simp add: generate_main_def data_def)


section \<open>The dataset precondition\<close>

text \<open>
  Claim C7. When the dataset artifact is missing at \<open>DATASET_PATH\<close>, either runner ends
  at once with \<open>FileNotFoundError\<close>, whose message ends with that path, and leaves the
  state as it found it: no request has been issued, and the output file has not been
  opened, so no record is written.
\<close>

theorem missing_dataset_is_fatal_before_any_request:
  assumes "dataset_file w = Missing" and "dataset_file v = Missing"
  shows "compare_main g srv a w =
           (Some (FileNotFoundError (''Dataset not found: '' @ DATASET_PATH g)), w)
       \<and> ragas_main g srv b v =
           (Some (FileNotFoundError (''Dataset not found: '' @ DATASET_PATH g)), v)
       \<and> suffix (DATASET_PATH g) (''Dataset not found: '' @ DATASET_PATH g)"
  using assms by (simp add: compare_main_def ragas_main_def suffix_def)

theorem missing_dataset_is_fatal_before_any_request_witness:
  "dataset_file (no_dataset [compare_result (data ! 0, ''baseline'') 200 ''data: ok'']) = Missing
   \<and> dataset_file (no_dataset ([] :: ragas_record list)) = Missing
   \<and> compare_main example_globals ok_service
        \<lparr> smoke = False, limit = None, strategies = None \<rparr>
        (no_dataset [compare_result (data ! 0, ''baseline'') 200 ''data: ok'']) =
      (Some (FileNotFoundError ''Dataset not found: /repo/data/evaluation/golden-qa.json''),
       \<lparr> dataset_file = Missing,
         out_file = [compare_result (data ! 0, ''baseline'') 200 ''data: ok''],
         requests = [], stdout = [] \<rparr>)
   \<and> ragas_main example_globals ok_service
        \<lparr> smoke = False, limit = None, categories = None \<rparr> (no_dataset []) =
      (Some (FileNotFoundError ''Dataset not found: /repo/data/evaluation/golden-qa.json''),
       \<lparr> dataset_file = Missing, out_file = [], requests = [], stdout = [] \<rparr>)"
proof -
  have h1: "dataset_file (no_dataset [compare_result (data ! 0, ''baseline'') 200 ''data: ok''])
      = Missing"
    by (simp add: no_dataset_def)
  have h2: "dataset_file (no_dataset ([] :: ragas_record list)) = Missing"
    by (simp add: no_dataset_def)
  from missing_dataset_is_fatal_before_any_request [OF h1 h2, of example_globals ok_service
      "\<lparr> smoke = False, limit = None, strategies = None \<rparr>"
      "\<lparr> smoke = False, limit = None, categories = None \<rparr>"] h1 h2
  show ?thesis
    by (simp add: example_globals_def no_dataset_def)
qed


section \<open>Selecting the items of a run\<close>

text \<open>
  Claim C3, as stated, fails: with the smoke flag and \<open>--limit 2\<close> on the eleven-item
  dataset, five items are selected, not \<open>min 2 11\<close>.
\<close>

theorem explicit_limit_wins_counterexample:
  "length (compare_select \<lparr> smoke = True, limit = Some 2, strategies = None \<rparr> data)
     \<noteq> min 2 (length data)"
  by (simp add: compare_select_def slice_dataset_def py_slice_to_def data_def)

text \<open>
  Claim C3, amended. When the smoke flag is given, it decides, whatever the limit: the
  strategy-comparison runner selects the first \<open>min 5 |dataset|\<close> items of the dataset,
  and the RAGAS runner the first \<open>min 5 count\<close> items of the category-filtered dataset.
\<close>

theorem smoke_takes_precedence_over_limit:
  assumes "smoke a" and "smoke b"
  shows "compare_select a ds = take 5 ds
       \<and> length (compare_select a ds) = min 5 (length ds)
       \<and> ragas_select b ds = take 5 (filter_categories b ds)
       \<and> length (ragas_select b ds) = min 5 (length (filter_categories b ds))"
  using assms
  by (simp add: compare_select_def ragas_select_def slice_dataset_def py_slice_to_def
        min.commute)

theorem smoke_takes_precedence_over_limit_witness:
  "smoke \<lparr> smoke = True, limit = Some 2, strategies = None \<rparr>
   \<and> smoke \<lparr> smoke = True, limit = Some 2, categories = None \<rparr>
   \<and> length (compare_select \<lparr> smoke = True, limit = Some 2, strategies = None \<rparr> data) = 5
   \<and> length (ragas_select \<lparr> smoke = True, limit = Some 2, categories = None \<rparr> data) = 5"
proof -
  have h1: "smoke \<lparr> smoke = True, limit = Some 2, strategies = None \<rparr>" by simp
  have h2: "smoke \<lparr> smoke = True, limit = Some 2, categories = None \<rparr>" by simp
  from smoke_takes_precedence_over_limit [OF h1 h2, of data] h1 h2
  show ?thesis
    by (simp add: filter_categories_def data_def)
qed

text \<open>
  Claim C10, as stated, fails: with the category filter \<open>qualitative\<close> and
  \<open>--limit 0\<close>, the RAGAS runner selects both qualitative items of the eleven-item
  dataset, not the first \<open>min 0 2\<close> of them.
\<close>

theorem ragas_limit_zero_counterexample:
  "ragas_select \<lparr> smoke = False, limit = Some 0, categories = Some [''qualitative''] \<rparr> data
     \<noteq> take (min 0 (length (filter (\<lambda>d. category d = ''qualitative'') data)))
          (filter (\<lambda>d. category d = ''qualitative'') data)"
  by (simp add: ragas_select_def slice_dataset_def filter_categories_def data_def
        build_entry_def)

text \<open>
  Claim C10, amended. In the RAGAS runner a category filter is applied before the slicing:
  the selected items are always an initial segment of the category-filtered sequence;
  under smoke mode they are its first \<open>min 5 count\<close> items, and without smoke mode,
  under a limit \<open>n > 0\<close>, its first \<open>min n count\<close> items.
\<close>

theorem ragas_filter_then_slice:
  assumes "categories a = Some cs" and "cs \<noteq> []"
  shows "filter_categories a ds = filter (\<lambda>d. category d \<in> set cs) ds
       \<and> prefix (ragas_select a ds) (filter (\<lambda>d. category d \<in> set cs) ds)
       \<and> (smoke a \<longrightarrow>
            ragas_select a ds = take 5 (filter (\<lambda>d. category d \<in> set cs) ds)
            \<and> length (ragas_select a ds) =
                min 5 (length (filter (\<lambda>d. category d \<in> set cs) ds)))
       \<and> (\<not> smoke a \<and> limit a = Some n \<and> 0 < n \<longrightarrow>
            ragas_select a ds = take (nat n) (filter (\<lambda>d. category d \<in> set cs) ds)
            \<and> length (ragas_select a ds) =
                min (nat n) (length (filter (\<lambda>d. category d \<in> set cs) ds)))"
  using assms
  by (auto simp: ragas_select_def slice_dataset_def filter_categories_def py_slice_to_def
        take_is_prefix split: option.splits)

theorem ragas_filter_then_slice_witness:
  "ragas_select \<lparr> smoke = False, limit = Some 1, categories = Some [''qualitative''] \<rparr> data
     = [data ! 7]
   \<and> take 1 data = [data ! 0]
   \<and> category (data ! 0) = ''single_metric''
   \<and> ragas_select \<lparr> smoke = True, limit = None, categories = Some [''qualitative''] \<rparr>
       six_qualitative
     = [qual_item ''q1'', qual_item ''q2'', qual_item ''q3'', qual_item ''q4'', qual_item ''q5'']"
proof -
  have c: "categories \<lparr> smoke = False, limit = Some 1, categories = Some [''qualitative''] \<rparr>
             = Some [''qualitative'']"
    and c': "categories \<lparr> smoke = True, limit = None, categories = Some [''qualitative''] \<rparr>
             = Some [''qualitative'']"
    and ne: "[''qualitative''] \<noteq> []"
    by simp_all
  have f: "filter (\<lambda>d. category d \<in> set [''qualitative'']) data = [data ! 7, data ! 8]"
    by (simp add: data_def build_entry_def)
  have f': "filter (\<lambda>d. category d \<in> set [''qualitative'']) six_qualitative =
      [qual_item ''q1'', qual_item ''q2'', qual_item ''q3'', qual_item ''q4'',
       qual_item ''q5'', qual_item ''q6'']"
    by (simp add: six_qualitative_def qual_item_def data_def build_entry_def)
  have d: "take 1 data = [data ! 0]" "category (data ! 0) = ''single_metric''"
    by (simp_all add: data_def build_entry_def)
  from ragas_filter_then_slice [OF c ne, of data 1] ragas_filter_then_slice [OF c' ne, of six_qualitative 1]
  show ?thesis
    unfolding f f' using d by simp
qed


section \<open>Runs that find a dataset\<close>


lemma compare_main_dataset:
  "dataset_file w = Dataset ds \<Longrightarrow>
   compare_main g srv a w = (Some (TypeError async_with_message), w \<lparr> out_file := [] \<rparr>)"
  by (simp add: compare_main_def async_with_file_def)

lemma ragas_main_dataset:
  "dataset_file w = Dataset ds \<Longrightarrow>
   ragas_main g srv a w = (Some (TypeError async_with_message), w \<lparr> out_file := [] \<rparr>)"
  by (simp add: ragas_main_def async_with_file_def)

lemma compare_strategies_nonempty: "compare_strategies a \<noteq> []"
  by (simp add: compare_strategies_def default_strategies_def split: option.splits)

text \<open>\<open>run_case\<close> has no handler: an exception of the HTTP client leaves it.\<close>

lemma run_case_transport_failure:
  "srv (requests w) (compare_request g (item, strat)) = TransportFailure m \<Longrightarrow>
   fst (run_case g srv item strat w) = Inl (ClientError m)"
  by (simp add: run_case_def Let_def)



text \<open>
  Claim C2 fails on the code. In every run of the strategy-comparison runner that selects
  at least one item, the output file holds no record, while the number of selected items
  times the number of strategies is positive.
\<close>

theorem compare_run_writes_no_record:
  assumes "dataset_file w = Dataset ds" and "compare_select a ds \<noteq> []"
  shows "length (out_file (snd (compare_main g srv a w))) = 0
       \<and> 0 < length (compare_select a ds) * length (compare_strategies a)"
  using compare_main_dataset [OF assms(1)] assms(2) compare_strategies_nonempty
  by simp

theorem compare_run_writes_no_record_witness:
  "length (out_file (snd (compare_main example_globals failing_service
       \<lparr> smoke = False, limit = None, strategies = None \<rparr> (start two_items)))) = 0
   \<and> length (compare_select \<lparr> smoke = False, limit = None, strategies = None \<rparr> two_items)
       * length (compare_strategies \<lparr> smoke = False, limit = None, strategies = None \<rparr>) = 6"
proof -
  let ?a = "\<lparr> smoke = False, limit = None, strategies = None \<rparr>"
  let ?w = "start two_items :: compare_record world"
  have ds: "dataset_file ?w = Dataset two_items" by (simp add: start_def)
  have sel: "compare_select ?a two_items = two_items"
    by (simp add: compare_select_def slice_dataset_def)
  have ne: "compare_select ?a two_items \<noteq> []"
    unfolding sel by (simp add: two_items_def)
  have n: "length (compare_select ?a two_items) * length (compare_strategies ?a) = 6"
    unfolding sel
    by (simp add: compare_strategies_def default_strategies_def two_items_def)
  from compare_run_writes_no_record [OF ds ne, of example_globals failing_service] n
  show ?thesis by simp
qed

text \<open>
  Claim C6 fails on the code. In the run over the two items \<open>single_metric_1\<close>,
  \<open>growth_1\<close> with the strategies \<open>baseline\<close>, \<open>hybrid-0.6\<close>, against a service
  that answers every request with status 200, the output file holds no record, where the
  items-outer, strategies-inner enumeration has four pairs.
\<close>

theorem compare_scenario_writes_no_record:
  "out_file (snd (compare_main example_globals ok_service
       \<lparr> smoke = False, limit = None, strategies = Some [''baseline'', ''hybrid-0.6''] \<rparr>
       (start two_items))) = []
   \<and> concat (map (\<lambda>item. map (\<lambda>strat. (item_id item, strat))
          (compare_strategies
             \<lparr> smoke = False, limit = None, strategies = Some [''baseline'', ''hybrid-0.6''] \<rparr>))
        (compare_select
           \<lparr> smoke = False, limit = None, strategies = Some [''baseline'', ''hybrid-0.6''] \<rparr>
           two_items))
     = [(''single_metric_1'', ''baseline''), (''single_metric_1'', ''hybrid-0.6''),
        (''growth_1'', ''baseline''), (''growth_1'', ''hybrid-0.6'')]"
  by (simp add: compare_main_def async_with_file_def start_def compare_select_def
        slice_dataset_def compare_strategies_def two_items_def data_def build_entry_def)

text \<open>
  Claim C4 fails on the code. The run of the RAGAS runner with the category filter
  \<open>qualitative\<close> over the builder's dataset selects the two items \<open>qual_1\<close> and
  \<open>qual_2\<close>, both of category \<open>qualitative\<close>, and ends with the \<open>TypeError\<close> of its
  \<open>async with\<close> statement before the first request: the output file holds no record
  for them.
\<close>

theorem ragas_filtered_run_writes_no_record:
  "ragas_main example_globals ok_service
     \<lparr> smoke = False, limit = None, categories = Some [''qualitative''] \<rparr> (start data) =
   (Some (TypeError async_with_message),
    \<lparr> dataset_file = Dataset data, out_file = [], requests = [], stdout = [] \<rparr>)
   \<and> map (\<lambda>d. (item_id d, category d))
        (ragas_select \<lparr> smoke = False, limit = None, categories = Some [''qualitative''] \<rparr>
           data)
     = [(''qual_1'', ''qualitative''), (''qual_2'', ''qualitative'')]"
  by (simp add: ragas_main_def async_with_file_def start_def ragas_select_def
        slice_dataset_def filter_categories_def data_def build_entry_def)

text \<open>
  Claim C8, as stated, fails: for a response with status 500 the record \<open>run_case\<close>
  returns holds the error body in \<open>raw_response\<close>, and it has no \<open>error\<close> key.
\<close>

theorem run_case_failure_in_raw_response_counterexample:
  "fst (run_case example_globals failing_service (data ! 0) ''baseline''
          (start two_items :: compare_record world)) =
     Inr \<lparr> cr_id = ''single_metric_1'',
           cr_question = ''What was NVDA's revenue in Q3 FY2024?'',
           cr_strategy = ''baseline'',
           cr_status = 500,
           cr_raw_response = ''Internal Server Error'' \<rparr>"
  by (simp add: run_case_def Let_def failing_service_def compare_result_def data_def
        build_entry_def)

text \<open>
  Claim C8, amended. For a response with any status code, the record \<open>run_case\<close>
  returns holds the code in \<open>status\<close> and the whole body in \<open>raw_response\<close>. For a
  response with status 200 \<open>fetch_answer\<close> returns the body under \<open>raw\<close>, and the
  record built from it has \<open>raw_response\<close> the whole body and \<open>error\<close> null; for any
  other status it returns the text \<open>HTTP\<close>, the code, a colon and the body under
  \<open>error\<close>, and the record built from it has \<open>raw_response\<close> null and \<open>error\<close>
  that text.
\<close>

theorem record_fields_of_run_case_and_fetch_answer:
  assumes "srv (requests w) (compare_request g (item, strat)) = Response st tx"
    and "srv (requests v) (ragas_request g item) = Response st' tx'"
  shows "fst (run_case g srv item strat w) =
           Inr \<lparr> cr_id = item_id item, cr_question = question item, cr_strategy = strat,
                 cr_status = st, cr_raw_response = tx \<rparr>
       \<and> fst (fetch_answer g srv item v) =
           Inr (if st' = 200 then Raw tx' else Error (''HTTP '' @ str_int st' @ '': '' @ tx'))
       \<and> rr_raw_response (ragas_result item
             (if st' = 200 then Raw tx' else Error (''HTTP '' @ str_int st' @ '': '' @ tx'))) =
           (if st' = 200 then Some tx' else None)
       \<and> rr_error (ragas_result item
             (if st' = 200 then Raw tx' else Error (''HTTP '' @ str_int st' @ '': '' @ tx'))) =
           (if st' = 200 then None else Some (''HTTP '' @ str_int st' @ '': '' @ tx'))"
  using assms
  by (simp add: run_case_def fetch_answer_def Let_def compare_result_def ragas_answer_def
        ragas_result_def)

theorem record_fields_of_run_case_and_fetch_answer_witness:
  "fst (run_case example_globals failing_service (data ! 0) ''baseline''
          (start two_items :: compare_record world)) =
     Inr \<lparr> cr_id = item_id (data ! 0), cr_question = question (data ! 0),
           cr_strategy = ''baseline'', cr_status = 500,
           cr_raw_response = ''Internal Server Error'' \<rparr>
   \<and> fst (fetch_answer example_globals failing_service (data ! 0)
          (start two_items :: ragas_record world)) =
       Inr (Error ''HTTP 500: Internal Server Error'')
   \<and> fst (fetch_answer example_globals ok_service (data ! 0)
          (start two_items :: ragas_record world)) = Inr (Raw ''data: ok'')
   \<and> rr_raw_response (ragas_result (data ! 0) (Error ''HTTP 500: Internal Server Error''))
       = None
   \<and> rr_error (ragas_result (data ! 0) (Error ''HTTP 500: Internal Server Error''))
       = Some ''HTTP 500: Internal Server Error''
   \<and> rr_raw_response (ragas_result (data ! 0) (Raw ''data: ok'')) = Some ''data: ok''
   \<and> rr_error (ragas_result (data ! 0) (Raw ''data: ok'')) = None"
proof -
  let ?w = "start two_items :: compare_record world"
  let ?v = "start two_items :: ragas_record world"
  have c: "failing_service (requests ?w)
      (compare_request example_globals (data ! 0, ''baseline'')) =
      Response 500 ''Internal Server Error''"
    by (simp add: failing_service_def)
  have r: "failing_service (requests ?v) (ragas_request example_globals (data ! 0)) =
      Response 500 ''Internal Server Error''"
    by (simp add: failing_service_def)
  have c': "ok_service (requests ?w)
      (compare_request example_globals (data ! 0, ''baseline'')) = Response 200 ''data: ok''"
    by (simp add: ok_service_def)
  have r': "ok_service (requests ?v) (ragas_request example_globals (data ! 0)) =
      Response 200 ''data: ok''"
    by (simp add: ok_service_def)
  have s500: "str_int 500 = ''500''"
    by (simp add: str_int_def str_nat.simps)
  from record_fields_of_run_case_and_fetch_answer [OF c r]
       record_fields_of_run_case_and_fetch_answer [OF c' r']
  show ?thesis
    by (simp add: s500)
qed

end
